theory Spec2Isabelle
  imports Main "HOL-Library.Word" "HOL-Library.Tree"
begin

unbundle bit_operations_syntax

section \<open>The binder driver of \<^verbatim>\<open>module/new/binder.c\<close>\<close>

text \<open>
  The driver is embedded function by function. What the C code does through pointers is
  made explicit:
  \<^item> a \<^verbatim>\<open>void *\<close> and a \<^verbatim>\<open>size_t\<close> difference of two of them is a 64-bit word
    (the LP64 kernel); buffer sizes and offsets into user buffers are natural numbers;
  \<^item> object records live in a store \<open>objs\<close> from addresses to records, and the object
    tree of a process holds addresses, because the code writes to an object through the
    pointer that a lookup returned;
  \<^item> messages, notifiers and threads are moved from one list to the next and are values;
  \<^item> \<^verbatim>\<open>kmalloc\<close> is an oracle \<open>km\<close>, the list of the results of the coming calls
    (\<open>None\<close> is \<^verbatim>\<open>NULL\<close>); the memory it returns is not cleared, so a new record
    starts from what the store holds at that address;
  \<^item> a \<^verbatim>\<open>BUG_ON\<close> or a write through \<^verbatim>\<open>NULL\<close> ends the call with \<open>Oops\<close>, a queue
    read that has to wait ends it with \<open>Sleeps\<close>;
  \<^item> locks are not modelled: one call runs at a time.
  A leading underscore of a C name is written \<open>u_\<close>. Fields of different
  structs that share a name carry a prefix.
\<close>

subsection \<open>Constants of the kernel headers\<close>

type_synonym ptr = "64 word"

definition EPERM :: int where "EPERM = 1"
definition EAGAIN :: int where "EAGAIN = 11"
definition ENOMEM :: int where "ENOMEM = 12"
definition EFAULT :: int where "EFAULT = 14"
definition EBUSY :: int where "EBUSY = 16"
definition EINVAL :: int where "EINVAL = 22"
definition ENOSPC :: int where "ENOSPC = 28"
definition EPIPE :: int where "EPIPE = 32"

definition MAX_TRANSACTION_SIZE :: nat where "MAX_TRANSACTION_SIZE = 4000"

definition ALIGN :: "nat \<Rightarrow> nat \<Rightarrow> nat" where
  "ALIGN n a = ((n + (a - 1)) div a) * a"

definition MSG_BUF_ALIGN :: "nat \<Rightarrow> nat" where
  "MSG_BUF_ALIGN n = ALIGN n 8"

definition MSG_BUF_SIZE :: "nat \<Rightarrow> nat \<Rightarrow> nat" where
  "MSG_BUF_SIZE ds os = MSG_BUF_ALIGN ds + MSG_BUF_ALIGN os"

definition BINDER_LOOPER_STATE_ENTERED :: "32 word" where
  "BINDER_LOOPER_STATE_ENTERED = 2"

text \<open>
  \<^verbatim>\<open>binder.h\<close> is not among the sources. Its command codes and descriptor types are kept
  symbolic, one constructor for each name the driver uses, and are taken to be pairwise
  different numbers; \<open>BC_OTHER\<close> and \<open>BINDER_TYPE_OTHER\<close> stand for every other value.
\<close>

datatype bcmd =
    BC_TRANSACTION | BC_REPLY
  | BC_REQUEST_DEATH_NOTIFICATION | BC_CLEAR_DEATH_NOTIFICATION
  | BC_ENTER_LOOPER | BC_EXIT_LOOPER | BC_REGISTER_LOOPER
  | BC_DEAD_BINDER
  | BR_TRANSACTION | BR_REPLY | BR_TRANSACTION_COMPLETE
  | BR_DEAD_BINDER | BR_FAILED_REPLY | BR_DEAD_REPLY
  | BR_SPAWN_LOOPER | BR_CLEAR_DEATH_NOTIFICATION_DONE
  | BC_OTHER nat

datatype binder_type =
    BINDER_TYPE_BINDER | BINDER_TYPE_WEAK_BINDER
  | BINDER_TYPE_HANDLE | BINDER_TYPE_WEAK_HANDLE
  | BINDER_TYPE_OTHER nat

datatype stop = Oops | Sleeps

subsection \<open>The structs\<close>

record obj_id_t =
  id_owner :: ptr
  id_binder :: ptr

record binder_notifier =
  event :: nat
  nt_cookie :: ptr
  notify_queue :: ptr

record binder_obj =
  obj_id :: obj_id_t
  real_cookie :: ptr
  notifiers :: "binder_notifier list"

record flat_binder_object =
  fb_type :: binder_type
  fb_flags :: "64 word"
  fb_binder :: ptr
  fb_cookie :: ptr

text \<open>
  The payload of a message is read through two views: the descriptor found at a byte
  offset of the data region, and the entries of the offsets array. \<open>offsets_off\<close> is
  the distance \<^verbatim>\<open>offsets - data\<close> of the two pointers, which no function assigns.
\<close>

record bcmd_msg_buf =
  data :: "nat \<Rightarrow> flat_binder_object"
  data_size :: nat
  offsets :: "nat \<Rightarrow> nat"
  offsets_size :: nat
  offsets_off :: nat
  buf_size :: nat

record bcmd_msg =
  m_obj_id :: obj_id_t
  m_type :: bcmd
  m_code :: "32 word"
  m_flags :: "32 word"
  m_buf :: bcmd_msg_buf
  sender_pid :: int
  sender_euid :: "32 word"
  m_cookie :: ptr
  reply_queue :: ptr

record binder_transaction_data =
  td_target :: ptr
  td_code :: "32 word"
  td_flags :: "32 word"
  td_sender_pid :: int
  td_sender_euid :: "32 word"
  td_data_size :: nat
  td_offsets_size :: nat
  td_buffer :: nat
  td_offsets :: nat

record bcmd_notifier_data =
  nd_binder :: ptr
  nd_cookie :: ptr

record binder_thread =
  t_pid :: int
  t_queue :: ptr
  t_state :: "32 word"
  t_non_block :: bool
  pending_replies :: nat
  incoming_transactions :: "bcmd_msg list"
  last_error :: "bcmd option"

record binder_proc =
  thread_tree :: "binder_thread tree"
  obj_tree :: "ptr tree"
  p_queue :: ptr
  p_pid :: int
  p_non_block :: bool
  max_threads :: "32 word"
  num_loopers :: "32 word"
  pending_loopers :: "32 word"

text \<open>
  Modelled from the spec: the message queue of \<^verbatim>\<open>msg_queue.h\<close>, which is not among the
  sources. Section 6.2 of the specification gives its contract: a FIFO with tail and
  head insertion, a read that waits unless the queue is non-blocking, writes that fail
  on a closed queue, and a drop callback run on every entry left when the queue is
  destroyed. The driver creates every queue with capacity 0, read here as unbounded.
\<close>

record msg_queue =
  q_entries :: "bcmd_msg list"
  q_closed :: bool
  q_non_block :: bool

text \<open>A cell of user memory: what one access of the driver reads or writes there.\<close>

datatype ucell =
    UNMAPPED
  | UFREE
  | UCMD bcmd
  | UTDATA binder_transaction_data
  | UNOTIFIER bcmd_notifier_data
  | UDATA "nat \<Rightarrow> flat_binder_object" nat
  | UOFFS "nat \<Rightarrow> nat" nat

text \<open>
  The state of the kernel that the driver reads and writes. \<open>stack_p\<close> is the value that
  the local \<^verbatim>\<open>p\<close> of \<^verbatim>\<open>binder_alloc_msg\<close> holds: the function tests it and never
  assigns it.
\<close>

record kernel =
  queues :: "ptr \<Rightarrow> msg_queue"
  objs :: "ptr \<Rightarrow> binder_obj"
  kmem_msg :: "ptr \<Rightarrow> bcmd_msg"
  km :: "ptr option list"
  stack_p :: ptr
  umem :: "nat \<Rightarrow> ucell"
  context_mgr_obj :: "ptr option"
  context_mgr_uid :: "32 word"
  current_euid :: "32 word"

text \<open>
  What the missing headers fix and the driver only uses: the sizes of two structs, two
  flag bits, and the rebalancing of \<^verbatim>\<open>rbtree.h\<close> after a node has been linked.
\<close>

record env =
  sizeof_tdata :: nat
  sizeof_flat :: nat
  BINDER_LOOPER_STATE_ACTIVE :: "32 word"
  TF_ONE_WAY :: "32 word"
  rb_insert_color :: "ptr \<Rightarrow> ptr tree \<Rightarrow> ptr tree"

subsection \<open>Allocation\<close>

definition kmalloc :: "kernel \<Rightarrow> ptr option \<times> kernel" where
  "kmalloc s = (case km s of [] \<Rightarrow> (None, s) | r # rs \<Rightarrow> (r, s\<lparr>km := rs\<rparr>))"

subsection \<open>The object tree\<close>

definition obj_id_cmp :: "obj_id_t \<Rightarrow> obj_id_t \<Rightarrow> int" where
  "obj_id_cmp a b =
     (let sign = id_owner a - id_owner b in
      if sign \<noteq> 0 then (if sign > 0 then 1 else - 1)
      else
        (let sign = id_binder a - id_binder b in
         if sign \<noteq> 0 then (if sign > 0 then 1 else - 1) else 0))"

text \<open>The descent of \<^verbatim>\<open>_binder_find_obj\<close>.\<close>

fun find_walk :: "(ptr \<Rightarrow> binder_obj) \<Rightarrow> obj_id_t \<Rightarrow> ptr tree \<Rightarrow> ptr option" where
  "find_walk m k Leaf = None"
| "find_walk m k (Node l n r) =
     (let c = obj_id_cmp k (obj_id (m n)) in
      if c < 0 then find_walk m k l
      else if c > 0 then find_walk m k r
      else Some n)"

definition u_binder_find_obj :: "binder_proc \<Rightarrow> ptr \<Rightarrow> ptr \<Rightarrow> kernel \<Rightarrow> ptr option" where
  "u_binder_find_obj proc ow b s =
     find_walk (objs s) \<lparr>id_owner = ow, id_binder = b\<rparr> (obj_tree proc)"

definition binder_find_obj :: "binder_proc \<Rightarrow> ptr \<Rightarrow> kernel \<Rightarrow> ptr option" where
  "binder_find_obj proc b s = u_binder_find_obj proc (p_queue proc) b s"

text \<open>
  The descent of \<^verbatim>\<open>_binder_new_obj\<close>: \<open>Inl\<close> the node found with the same id, or
  \<open>Inr\<close> the tree with the new node \<open>x\<close> linked where the descent ended.
\<close>

fun link_walk :: "(ptr \<Rightarrow> binder_obj) \<Rightarrow> obj_id_t \<Rightarrow> ptr \<Rightarrow> ptr tree \<Rightarrow> ptr + ptr tree" where
  "link_walk m k x Leaf = Inr (Node Leaf x Leaf)"
| "link_walk m k x (Node l n r) =
     (let c = obj_id_cmp k (obj_id (m n)) in
      if c < 0 then
        (case link_walk m k x l of Inl y \<Rightarrow> Inl y | Inr l' \<Rightarrow> Inr (Node l' n r))
      else if c > 0 then
        (case link_walk m k x r of Inl y \<Rightarrow> Inl y | Inr r' \<Rightarrow> Inr (Node l n r'))
      else Inl n)"

definition u_binder_new_obj ::
  "env \<Rightarrow> binder_proc \<Rightarrow> ptr \<Rightarrow> ptr \<Rightarrow> kernel \<Rightarrow> ptr option \<times> binder_proc \<times> kernel" where
  "u_binder_new_obj e proc ow b s =
     (case kmalloc s of
        (None, s1) \<Rightarrow> (None, proc, s1)
      | (Some x, s1) \<Rightarrow>
          (let k = \<lparr>id_owner = ow, id_binder = b\<rparr>;
               s2 = s1\<lparr>objs := (objs s1)(x := (objs s1 x)\<lparr>obj_id := k, notifiers := []\<rparr>)\<rparr>
           in case link_walk (objs s2) k x (obj_tree proc) of
                Inl y \<Rightarrow> (Some y, proc, s2)
              | Inr t \<Rightarrow> (Some x, proc\<lparr>obj_tree := rb_insert_color e x t\<rparr>, s2)))"

definition binder_new_obj ::
  "env \<Rightarrow> binder_proc \<Rightarrow> ptr \<Rightarrow> kernel \<Rightarrow> ptr option \<times> binder_proc \<times> kernel" where
  "binder_new_obj e proc b s = u_binder_new_obj e proc (p_queue proc) b s"

subsection \<open>Translation of the embedded descriptors\<close>

definition bcmd_write_flat_obj ::
  "env \<Rightarrow> binder_proc \<Rightarrow> flat_binder_object \<Rightarrow> kernel
     \<Rightarrow> stop + (int \<times> binder_proc \<times> flat_binder_object \<times> kernel)" where
  "bcmd_write_flat_obj e proc bp s =
     (let ty = fb_type bp in
      if ty = BINDER_TYPE_BINDER \<or> ty = BINDER_TYPE_WEAK_BINDER then
        (case
           (case binder_find_obj proc (fb_binder bp) s of
              Some obj \<Rightarrow> Inr (obj, proc, s)
            | None \<Rightarrow>
                (case binder_new_obj e proc (fb_binder bp) s of
                   (None, proc1, s1) \<Rightarrow> Inl Oops
                 | (Some obj, proc1, s1) \<Rightarrow>
                     Inr (obj, proc1,
                          s1\<lparr>objs := (objs s1)(obj := (objs s1 obj)\<lparr>real_cookie := fb_cookie bp\<rparr>)\<rparr>)))
         of
           Inl st \<Rightarrow> Inl st
         | Inr (obj, proc1, s1) \<Rightarrow>
             Inr (0, proc1,
                  bp\<lparr>fb_type := (if ty = BINDER_TYPE_BINDER then BINDER_TYPE_HANDLE
                                  else BINDER_TYPE_WEAK_HANDLE),
                     fb_cookie := id_owner (obj_id (objs s1 obj))\<rparr>,
                  s1))
      else if ty = BINDER_TYPE_HANDLE \<or> ty = BINDER_TYPE_WEAK_HANDLE then
        (case u_binder_find_obj proc (fb_cookie bp) (fb_binder bp) s of
           None \<Rightarrow> Inr (- EINVAL, proc, bp, s)
         | Some obj \<Rightarrow> Inr (0, proc, bp, s))
      else Inr (- EINVAL, proc, bp, s))"

definition bcmd_read_flat_obj ::
  "env \<Rightarrow> binder_proc \<Rightarrow> flat_binder_object \<Rightarrow> kernel
     \<Rightarrow> int \<times> binder_proc \<times> flat_binder_object \<times> kernel" where
  "bcmd_read_flat_obj e proc bp s =
     (let ty = fb_type bp in
      if ty = BINDER_TYPE_HANDLE \<or> ty = BINDER_TYPE_WEAK_HANDLE then
        (case u_binder_find_obj proc (fb_cookie bp) (fb_binder bp) s of
           Some obj \<Rightarrow>
             (if fb_cookie bp = p_queue proc then
                (0, proc,
                 bp\<lparr>fb_type := (if ty = BINDER_TYPE_HANDLE then BINDER_TYPE_BINDER
                                 else BINDER_TYPE_WEAK_BINDER),
                    fb_cookie := real_cookie (objs s obj)\<rparr>,
                 s)
              else (0, proc, bp, s))
         | None \<Rightarrow>
             (case u_binder_new_obj e proc (fb_cookie bp) (fb_binder bp) s of
                (None, proc1, s1) \<Rightarrow> (- ENOMEM, proc1, bp, s1)
              | (Some obj, proc1, s1) \<Rightarrow> (0, proc1, bp, s1)))
      else (- EFAULT, proc, bp, s))"

subsection \<open>The message queue\<close>

text \<open>
  Modelled from the spec: the operations of \<^verbatim>\<open>msg_queue.h\<close> (section 6.2). A queue
  that has been destroyed is a closed queue. The specification gives no numbers for the
  failures of a queue operation; the model returns \<open>- EPIPE\<close> on a closed queue and
  \<open>- EAGAIN\<close> for a read that finds a non-blocking queue empty. A read takes what is
  left in a closed queue before it reports the close.
\<close>

text \<open>Modelled from the spec: \<^verbatim>\<open>get_msg_queue\<close>, the reference that a closed queue refuses.\<close>

definition get_msg_queue :: "ptr \<Rightarrow> kernel \<Rightarrow> int" where
  "get_msg_queue q s = (if q_closed (queues s q) then - EPIPE else 0)"

text \<open>Modelled from the spec: \<^verbatim>\<open>msg_queue_empty\<close> and \<^verbatim>\<open>msg_queue_size\<close>.\<close>

definition msg_queue_empty :: "ptr \<Rightarrow> kernel \<Rightarrow> bool" where
  "msg_queue_empty q s = (q_entries (queues s q) = [])"

definition msg_queue_size :: "ptr \<Rightarrow> kernel \<Rightarrow> nat" where
  "msg_queue_size q s = length (q_entries (queues s q))"

text \<open>The state in which the queue \<open>q\<close> holds the entries \<open>ms\<close>.\<close>

definition set_entries :: "ptr \<Rightarrow> bcmd_msg list \<Rightarrow> kernel \<Rightarrow> kernel" where
  "set_entries q ms s = s\<lparr>queues := (queues s)(q := (queues s q)\<lparr>q_entries := ms\<rparr>)\<rparr>"

text \<open>
  Modelled from the spec: \<^verbatim>\<open>read_msg_queue\<close>, which returns 0 with the first entry,
  fails on a queue that is empty and closed or non-blocking, and waits otherwise.
\<close>

definition read_msg_queue :: "ptr \<Rightarrow> kernel \<Rightarrow> stop + (int \<times> bcmd_msg option \<times> kernel)" where
  "read_msg_queue q s =
     (case q_entries (queues s q) of
        m # ms \<Rightarrow> Inr (0, Some m, set_entries q ms s)
      | [] \<Rightarrow>
          if q_closed (queues s q) then Inr (- EPIPE, None, s)
          else if q_non_block (queues s q) then Inr (- EAGAIN, None, s)
          else Inl Sleeps)"

text \<open>
  Modelled from the spec: \<^verbatim>\<open>write_msg_queue\<close> and \<^verbatim>\<open>write_msg_queue_head\<close>, the
  insertion at the tail and at the head, which a closed queue refuses.
\<close>

definition write_msg_queue :: "ptr \<Rightarrow> bcmd_msg \<Rightarrow> kernel \<Rightarrow> int \<times> kernel" where
  "write_msg_queue q m s =
     (if q_closed (queues s q) then (- EPIPE, s)
      else (0, set_entries q (q_entries (queues s q) @ [m]) s))"

definition write_msg_queue_head :: "ptr \<Rightarrow> bcmd_msg \<Rightarrow> kernel \<Rightarrow> int \<times> kernel" where
  "write_msg_queue_head q m s =
     (if q_closed (queues s q) then (- EPIPE, s)
      else (0, set_entries q (m # q_entries (queues s q)) s))"

subsection \<open>Queue access of the driver\<close>

definition u_bcmd_read_msg :: "ptr \<Rightarrow> kernel \<Rightarrow> stop + (int \<times> bcmd_msg option \<times> kernel)" where
  "u_bcmd_read_msg q s = read_msg_queue q s"

definition bcmd_read_msg :: "ptr \<Rightarrow> kernel \<Rightarrow> stop + (int \<times> bcmd_msg option \<times> kernel)" where
  "bcmd_read_msg q s =
     (if get_msg_queue q s < 0 then Inr (- EFAULT, None, s) else u_bcmd_read_msg q s)"

definition u_bcmd_write_msg :: "ptr \<Rightarrow> bcmd_msg \<Rightarrow> kernel \<Rightarrow> int \<times> kernel" where
  "u_bcmd_write_msg q m s = write_msg_queue q m s"

definition bcmd_write_msg :: "ptr \<Rightarrow> bcmd_msg \<Rightarrow> kernel \<Rightarrow> int \<times> kernel" where
  "bcmd_write_msg q m s =
     (if get_msg_queue q s < 0 then (- EFAULT, s) else u_bcmd_write_msg q m s)"

definition u_bcmd_write_msg_head :: "ptr \<Rightarrow> bcmd_msg \<Rightarrow> kernel \<Rightarrow> int \<times> kernel" where
  "u_bcmd_write_msg_head q m s = write_msg_queue_head q m s"

definition bcmd_write_msg_head :: "ptr \<Rightarrow> bcmd_msg \<Rightarrow> kernel \<Rightarrow> int \<times> kernel" where
  "bcmd_write_msg_head q m s =
     (if get_msg_queue q s < 0 then (- EFAULT, s) else u_bcmd_write_msg_head q m s)"

text \<open>
  \<^verbatim>\<open>bcmd_msg_queue_size\<close> returns a \<^verbatim>\<open>size_t\<close>: its \<^verbatim>\<open>-EFAULT\<close> is the number
  \<open>2 ^ 64 - 14\<close>.
\<close>

definition bcmd_msg_queue_size :: "ptr \<Rightarrow> kernel \<Rightarrow> nat" where
  "bcmd_msg_queue_size q s =
     (if get_msg_queue q s < 0 then nat ((- EFAULT) mod 2 ^ 64) else msg_queue_size q s)"




subsection \<open>Messages\<close>

definition binder_alloc_msg :: "nat \<Rightarrow> nat \<Rightarrow> kernel \<Rightarrow> stop + (bcmd_msg option \<times> kernel)" where
  "binder_alloc_msg ds os s =
     (case kmalloc s of
        (r, s1) \<Rightarrow>
          if stack_p s1 = 0 then Inr (None, s1)
          else
            (case r of
               None \<Rightarrow> Inl Oops
             | Some x \<Rightarrow>
                 Inr (Some ((kmem_msg s1 x)
                        \<lparr>m_buf := (m_buf (kmem_msg s1 x))
                           \<lparr>data_size := ds, offsets_size := os,
                            buf_size := MSG_BUF_SIZE ds os\<rparr>\<rparr>),
                      s1)))"

definition binder_realloc_msg ::
  "bcmd_msg \<Rightarrow> nat \<Rightarrow> nat \<Rightarrow> kernel \<Rightarrow> stop + (bcmd_msg option \<times> kernel)" where
  "binder_realloc_msg msg ds os s =
     (if buf_size (m_buf msg) \<ge> MSG_BUF_SIZE ds os then
        Inr (Some (msg\<lparr>m_buf := (m_buf msg)\<lparr>data_size := ds, offsets_size := os\<rparr>\<rparr>), s)
      else binder_alloc_msg ds os s)"

subsection \<open>User memory\<close>

text \<open>
  An access to an unmapped cell, or a read of a cell that holds something else than what
  is read, is the fault that the kernel's copy functions report. A copy of no bytes
  touches nothing.
\<close>

definition get_user_cmd :: "nat \<Rightarrow> kernel \<Rightarrow> bcmd option" where
  "get_user_cmd a s = (case umem s a of UCMD c \<Rightarrow> Some c | _ \<Rightarrow> None)"

definition copy_from_user_tdata :: "nat \<Rightarrow> kernel \<Rightarrow> binder_transaction_data option" where
  "copy_from_user_tdata a s = (case umem s a of UTDATA td \<Rightarrow> Some td | _ \<Rightarrow> None)"

definition copy_from_user_notifier :: "nat \<Rightarrow> kernel \<Rightarrow> bcmd_notifier_data option" where
  "copy_from_user_notifier a s = (case umem s a of UNOTIFIER nd \<Rightarrow> Some nd | _ \<Rightarrow> None)"

definition copy_from_user_data ::
  "(nat \<Rightarrow> flat_binder_object) \<Rightarrow> nat \<Rightarrow> nat \<Rightarrow> kernel \<Rightarrow> (nat \<Rightarrow> flat_binder_object) option" where
  "copy_from_user_data cur a n s =
     (if n = 0 then Some cur
      else
        (case umem s a of
           UDATA f len \<Rightarrow> if n \<le> len then Some (\<lambda>off. if off < n then f off else cur off) else None
         | _ \<Rightarrow> None))"

definition copy_from_user_offsets ::
  "(nat \<Rightarrow> nat) \<Rightarrow> nat \<Rightarrow> nat \<Rightarrow> kernel \<Rightarrow> (nat \<Rightarrow> nat) option" where
  "copy_from_user_offsets cur a n s =
     (if n = 0 then Some cur
      else
        (case umem s a of
           UOFFS f len \<Rightarrow> if n \<le> len then Some (\<lambda>i. if i * 8 < n then f i else cur i) else None
         | _ \<Rightarrow> None))"

definition put_user :: "ucell \<Rightarrow> nat \<Rightarrow> kernel \<Rightarrow> kernel option" where
  "put_user c a s =
     (if umem s a = UNMAPPED then None else Some (s\<lparr>umem := (umem s)(a := c)\<rparr>))"

definition copy_to_user_data ::
  "nat \<Rightarrow> (nat \<Rightarrow> flat_binder_object) \<Rightarrow> nat \<Rightarrow> kernel \<Rightarrow> kernel option" where
  "copy_to_user_data a f n s = (if n = 0 then Some s else put_user (UDATA f n) a s)"

subsection \<open>The write path\<close>

text \<open>
  The loop of \<^verbatim>\<open>bcmd_write_msg_buf\<close> over the offsets array. The source never advances
  \<^verbatim>\<open>p\<close>: every round reads the first entry of the array, and the loop is entered when
  the array is not empty. A loop that does not end has the value \<open>None\<close>.
\<close>

partial_function (option) write_flat_objs ::
  "env \<Rightarrow> binder_proc \<Rightarrow> bcmd_msg_buf \<Rightarrow> kernel
     \<Rightarrow> (stop + (int \<times> binder_proc \<times> bcmd_msg_buf \<times> kernel)) option" where
  "write_flat_objs e proc buf s =
     (if 0 < offsets_size buf then
        (let off = offsets buf 0 in
         if (off + sizeof_flat e) mod 2 ^ 64 > data_size buf then
           Some (Inr (- EFAULT, proc, buf, s))
         else
           (case bcmd_write_flat_obj e proc (data buf off) s of
              Inl st \<Rightarrow> Some (Inl st)
            | Inr (r, proc1, bp, s1) \<Rightarrow>
                if r < 0 then Some (Inr (r, proc1, buf\<lparr>data := (data buf)(off := bp)\<rparr>, s1))
                else write_flat_objs e proc1 (buf\<lparr>data := (data buf)(off := bp)\<rparr>) s1))
      else Some (Inr (0, proc, buf, s)))"

definition bcmd_write_msg_buf ::
  "env \<Rightarrow> binder_proc \<Rightarrow> bcmd_msg_buf \<Rightarrow> binder_transaction_data \<Rightarrow> kernel
     \<Rightarrow> (stop + (int \<times> binder_proc \<times> bcmd_msg_buf \<times> kernel)) option" where
  "bcmd_write_msg_buf e proc buf tdata s =
     (case copy_from_user_data (data buf) (td_buffer tdata) (data_size buf) s of
        None \<Rightarrow> Some (Inr (- EFAULT, proc, buf, s))
      | Some d \<Rightarrow>
          (case copy_from_user_offsets (offsets buf) (td_offsets tdata) (offsets_size buf) s of
             None \<Rightarrow> Some (Inr (- EFAULT, proc, buf\<lparr>data := d\<rparr>, s))
           | Some ofs \<Rightarrow> write_flat_objs e proc (buf\<lparr>data := d, offsets := ofs\<rparr>) s))"

text \<open>The common exit of the failure labels: latch the error, return \<open>-1\<close>.\<close>

definition failed ::
  "bcmd \<Rightarrow> binder_proc \<Rightarrow> binder_thread \<Rightarrow> kernel
     \<Rightarrow> stop + (int \<times> binder_proc \<times> binder_thread \<times> kernel)" where
  "failed err proc thread s = Inr (- 1, proc, thread\<lparr>last_error := Some err\<rparr>, s)"

text \<open>
  Lines 635 to 672 of \<^verbatim>\<open>bcmd_write_transaction\<close>: the destination queue, the message
  and the target object, or the error to latch. The reply branch ends in
  \<^verbatim>\<open>obj_id_init(&msg->obj_id, NULL, NULL)\<close>, which reads \<^verbatim>\<open>proc->queue\<close> through
  the \<^verbatim>\<open>NULL\<close> it is given.
\<close>

definition transaction_msg ::
  "env \<Rightarrow> binder_proc \<Rightarrow> binder_thread \<Rightarrow> binder_transaction_data \<Rightarrow> bcmd \<Rightarrow> kernel
     \<Rightarrow> stop + ((bcmd \<times> binder_thread \<times> kernel)
               + (ptr \<times> bcmd_msg \<times> ptr option \<times> binder_thread \<times> kernel))" where
  "transaction_msg e proc thread tdata bcmd s =
     (if bcmd = BC_TRANSACTION then
        (case (if td_target tdata = 0 then context_mgr_obj s
               else binder_find_obj proc (td_target tdata) s) of
           None \<Rightarrow> Inr (Inl (BR_FAILED_REPLY, thread, s))
         | Some obj \<Rightarrow>
             (case binder_alloc_msg (td_data_size tdata) (td_offsets_size tdata) s of
                Inl st \<Rightarrow> Inl st
              | Inr (None, s1) \<Rightarrow> Inr (Inl (BR_FAILED_REPLY, thread, s1))
              | Inr (Some msg, s1) \<Rightarrow>
                  Inr (Inr (id_owner (obj_id (objs s obj)),
                            msg\<lparr>m_obj_id := obj_id (objs s1 obj)\<rparr>, Some obj, thread, s1))))
      else
        (case incoming_transactions thread of
           [] \<Rightarrow> Inr (Inl (BR_FAILED_REPLY, thread, s))
         | m # ms \<Rightarrow>
             (case binder_realloc_msg m (td_data_size tdata) (td_offsets_size tdata) s of
                Inl st \<Rightarrow> Inl st
              | Inr (None, s1) \<Rightarrow>
                  Inr (Inl (BR_FAILED_REPLY, thread\<lparr>incoming_transactions := ms\<rparr>, s1))
              | Inr (Some msg, s1) \<Rightarrow> Inl Oops)))"

text \<open>Lines 688 to 713: the enqueue on the destination and the acknowledgement.\<close>

definition transaction_send ::
  "env \<Rightarrow> binder_proc \<Rightarrow> binder_thread \<Rightarrow> binder_transaction_data \<Rightarrow> bcmd
     \<Rightarrow> ptr \<Rightarrow> bcmd_msg \<Rightarrow> ptr option \<Rightarrow> kernel
     \<Rightarrow> stop + (int \<times> binder_proc \<times> binder_thread \<times> kernel)" where
  "transaction_send e proc thread tdata bcmd q msg obj s =
     (case bcmd_write_msg q msg s of
        (r, s1) \<Rightarrow>
          if r < 0 then failed BR_DEAD_REPLY proc thread s1
          else
            (let thread1 =
                   (if bcmd = BC_TRANSACTION \<and> td_flags tdata AND TF_ONE_WAY e = 0
                    then thread\<lparr>pending_replies := (pending_replies thread + 1) mod 2 ^ 32\<rparr>
                    else thread)
             in case binder_alloc_msg 0 0 s1 of
                  Inl st \<Rightarrow> Inl st
                | Inr (None, s2) \<Rightarrow> failed BR_FAILED_REPLY proc thread1 s2
                | Inr (Some a, s2) \<Rightarrow>
                    (case u_bcmd_write_msg (t_queue thread1)
                            (a\<lparr>m_type := BR_TRANSACTION_COMPLETE,
                               m_obj_id := (case obj of Some x \<Rightarrow> obj_id (objs s2 x)
                                            | None \<Rightarrow> m_obj_id a),
                               m_code := td_code tdata,
                               m_flags := td_flags tdata\<rparr>) s2 of
                       (r2, s3) \<Rightarrow>
                         if r2 < 0 then failed BR_FAILED_REPLY proc thread1 s3
                         else Inr (0, proc, thread1, s3))))"

definition bcmd_write_transaction ::
  "env \<Rightarrow> binder_proc \<Rightarrow> binder_thread \<Rightarrow> binder_transaction_data \<Rightarrow> bcmd \<Rightarrow> kernel
     \<Rightarrow> (stop + (int \<times> binder_proc \<times> binder_thread \<times> kernel)) option" where
  "bcmd_write_transaction e proc thread tdata bcmd s =
     (case transaction_msg e proc thread tdata bcmd s of
        Inl st \<Rightarrow> Some (Inl st)
      | Inr (Inl (err, thread1, s1)) \<Rightarrow> Some (failed err proc thread1 s1)
      | Inr (Inr (q, msg0, obj, thread1, s1)) \<Rightarrow>
          (let msg = msg0\<lparr>m_type := bcmd, m_code := td_code tdata, m_flags := td_flags tdata,
                          sender_pid := p_pid proc, sender_euid := current_euid s1,
                          reply_queue := (if td_flags tdata AND TF_ONE_WAY e \<noteq> 0 then 0
                                          else t_queue thread1)\<rparr>
           in if td_data_size tdata > 0 then
                (case bcmd_write_msg_buf e proc (m_buf msg) tdata s1 of
                   None \<Rightarrow> None
                 | Some (Inl st) \<Rightarrow> Some (Inl st)
                 | Some (Inr (r, proc2, buf2, s2)) \<Rightarrow>
                     if r = 0 then Some (failed BR_FAILED_REPLY proc2 thread1 s2)
                     else Some (transaction_send e proc2 thread1 tdata bcmd q
                                  (msg\<lparr>m_buf := buf2\<rparr>) obj s2))
              else Some (transaction_send e proc thread1 tdata bcmd q msg obj s1)))"

definition bcmd_write_notifier ::
  "binder_proc \<Rightarrow> binder_thread \<Rightarrow> bcmd_notifier_data \<Rightarrow> bcmd \<Rightarrow> kernel
     \<Rightarrow> stop + (int \<times> binder_proc \<times> binder_thread \<times> kernel)" where
  "bcmd_write_notifier proc thread notifier bcmd s =
     (case binder_find_obj proc (nd_binder notifier) s of
        None \<Rightarrow> failed BR_FAILED_REPLY proc thread s
      | Some obj \<Rightarrow>
          (case binder_alloc_msg 0 0 s of
             Inl st \<Rightarrow> Inl st
           | Inr (None, s1) \<Rightarrow> failed BR_FAILED_REPLY proc thread s1
           | Inr (Some msg, s1) \<Rightarrow>
               (case bcmd_write_msg (id_owner (obj_id (objs s1 obj)))
                       (msg\<lparr>m_type := bcmd, m_obj_id := obj_id (objs s1 obj),
                            m_cookie := nd_cookie notifier, reply_queue := p_queue proc\<rparr>) s1 of
                  (r, s2) \<Rightarrow>
                    if r < 0 then failed BR_DEAD_REPLY proc thread s2
                    else Inr (0, proc, thread, s2))))"

text \<open>
  The counters \<^verbatim>\<open>max_threads\<close>, \<^verbatim>\<open>num_loopers\<close> and \<^verbatim>\<open>pending_loopers\<close> of a
  process, and the two locals of \<^verbatim>\<open>bcmd_write_looper\<close>, are \<^verbatim>\<open>int\<close>s: 32-bit words
  whose sums wrap around, as the kernel is compiled, and which \<open>sint\<close> reads when they
  are compared.
\<close>

definition bcmd_write_looper ::
  "env \<Rightarrow> binder_proc \<Rightarrow> binder_thread \<Rightarrow> bcmd \<Rightarrow> int \<times> binder_proc \<times> binder_thread" where
  "bcmd_write_looper e proc thread bcmd =
     (case
        (if bcmd = BC_ENTER_LOOPER then
           (if t_state thread AND BINDER_LOOPER_STATE_ACTIVE e \<noteq> 0
            then (Some BR_FAILED_REPLY, thread, 0 :: 32 word, 0 :: 32 word)
            else (None, thread\<lparr>t_state := t_state thread OR BINDER_LOOPER_STATE_ENTERED\<rparr>, 0 + 1, 0))
         else if bcmd = BC_EXIT_LOOPER then
           (if t_state thread AND BINDER_LOOPER_STATE_ENTERED \<noteq> 0
            then (None, thread\<lparr>t_state := t_state thread AND NOT (BINDER_LOOPER_STATE_ACTIVE e)\<rparr>,
                  0 - 1, 0)
            else (Some BR_FAILED_REPLY, thread, 0, 0))
         else if bcmd = BC_REGISTER_LOOPER then
           (if t_state thread AND BINDER_LOOPER_STATE_ACTIVE e \<noteq> 0
            then (Some BR_FAILED_REPLY, thread, 0, 0)
            else (None, thread, 0, 0 - 1))
         else (Some BR_FAILED_REPLY, thread, 0, 0))
      of
        (Some err, thread1, nl, pl) \<Rightarrow> (- 1, proc, thread1\<lparr>last_error := Some err\<rparr>)
      | (None, thread1, nl, pl) \<Rightarrow>
          (0,
           (if nl \<noteq> 0 \<or> pl \<noteq> 0
            then proc\<lparr>num_loopers := num_loopers proc + nl,
                      pending_loopers := pending_loopers proc + pl\<rparr>
            else proc),
           thread1))"

text \<open>
  The loop of \<^verbatim>\<open>binder_thread_write\<close>; \<open>p\<close> and \<open>ep\<close> are user addresses. The sum
  \<open>err\<close> of the results is kept as the source keeps it; nothing reads it. A command
  word has 4 bytes, \<^verbatim>\<open>struct bcmd_notifier_data\<close> has 16 and a \<^verbatim>\<open>size_t\<close> has 8.
\<close>

partial_function (option) write_loop ::
  "env \<Rightarrow> nat \<Rightarrow> nat \<Rightarrow> nat \<Rightarrow> int \<Rightarrow> binder_proc \<Rightarrow> binder_thread \<Rightarrow> kernel
     \<Rightarrow> (stop + (int \<times> binder_proc \<times> binder_thread \<times> kernel)) option" where
  "write_loop e buf ep p err proc thread s =
     (if p + 4 < ep then
        (case get_user_cmd p s of
           None \<Rightarrow> Some (Inr (- EFAULT, proc, thread, s))
         | Some bcmd \<Rightarrow>
             if bcmd = BC_TRANSACTION \<or> bcmd = BC_REPLY then
               (if p + 4 + sizeof_tdata e > ep then Some (Inr (- EFAULT, proc, thread, s))
                else
                  (case copy_from_user_tdata (p + 4) s of
                     None \<Rightarrow> Some (Inr (- EFAULT, proc, thread, s))
                   | Some tdata \<Rightarrow>
                       if td_data_size tdata > 0 \<and>
                          (((td_offsets_size tdata div 8 * sizeof_flat e) mod 2 ^ 64
                              + td_offsets_size tdata) mod 2 ^ 64 > td_data_size tdata
                           \<or> td_data_size tdata > MAX_TRANSACTION_SIZE)
                       then Some (Inr (- EINVAL, proc, thread, s))
                       else
                         (case bcmd_write_transaction e proc thread tdata bcmd s of
                            None \<Rightarrow> None
                          | Some (Inl st) \<Rightarrow> Some (Inl st)
                          | Some (Inr (r, proc1, thread1, s1)) \<Rightarrow>
                              write_loop e buf ep (p + 4 + sizeof_tdata e) (err + r)
                                proc1 thread1 s1)))
             else if bcmd = BC_REQUEST_DEATH_NOTIFICATION \<or> bcmd = BC_CLEAR_DEATH_NOTIFICATION then
               (if p + 4 + 16 > ep then Some (Inr (- EFAULT, proc, thread, s))
                else
                  (case copy_from_user_notifier (p + 4) s of
                     None \<Rightarrow> Some (Inr (- EFAULT, proc, thread, s))
                   | Some notifier \<Rightarrow>
                       (case bcmd_write_notifier proc thread notifier bcmd s of
                          Inl st \<Rightarrow> Some (Inl st)
                        | Inr (r, proc1, thread1, s1) \<Rightarrow>
                            write_loop e buf ep (p + 4 + 16) (err + r) proc1 thread1 s1)))
             else if bcmd = BC_ENTER_LOOPER \<or> bcmd = BC_EXIT_LOOPER \<or> bcmd = BC_REGISTER_LOOPER then
               (case bcmd_write_looper e proc thread bcmd of
                  (r, proc1, thread1) \<Rightarrow> write_loop e buf ep (p + 4) (err + r) proc1 thread1 s)
             else Some (Inr (- EINVAL, proc, thread, s)))
      else Some (Inr (int (p - buf), proc, thread, s)))"

definition binder_thread_write ::
  "env \<Rightarrow> binder_proc \<Rightarrow> binder_thread \<Rightarrow> nat \<Rightarrow> nat \<Rightarrow> kernel
     \<Rightarrow> (stop + (int \<times> binder_proc \<times> binder_thread \<times> kernel)) option" where
  "binder_thread_write e proc thread buf sz s =
     write_loop e buf (buf + sz) buf 0 proc thread s"

subsection \<open>The read path\<close>

text \<open>
  The loop of \<^verbatim>\<open>bcmd_read_transaction\<close> over the offsets array, which does not
  advance either.
\<close>

partial_function (option) read_flat_objs ::
  "env \<Rightarrow> binder_proc \<Rightarrow> bcmd_msg_buf \<Rightarrow> kernel
     \<Rightarrow> (int \<times> binder_proc \<times> bcmd_msg_buf \<times> kernel) option" where
  "read_flat_objs e proc mbuf s =
     (if 0 < offsets_size mbuf then
        (let off = offsets mbuf 0 in
         case bcmd_read_flat_obj e proc (data mbuf off) s of
           (r, proc1, bp, s1) \<Rightarrow>
             if r < 0 then Some (r, proc1, mbuf\<lparr>data := (data mbuf)(off := bp)\<rparr>, s1)
             else read_flat_objs e proc1 (mbuf\<lparr>data := (data mbuf)(off := bp)\<rparr>) s1)
      else Some (0, proc, mbuf, s))"

text \<open>
  A handler of the read loop returns its result, the message that \<^verbatim>\<open>*pmsg\<close> holds
  afterwards (\<open>None\<close> once the handler has taken it), and the new state.
\<close>

definition bcmd_read_transaction ::
  "env \<Rightarrow> binder_proc \<Rightarrow> binder_thread \<Rightarrow> bcmd_msg \<Rightarrow> nat \<Rightarrow> nat \<Rightarrow> kernel
     \<Rightarrow> (int \<times> bcmd_msg option \<times> binder_proc \<times> binder_thread \<times> kernel) option" where
  "bcmd_read_transaction e proc thread msg buf sz s =
     (let mbuf = m_buf msg;
          cmd = (if m_type msg = BC_TRANSACTION then BR_TRANSACTION else BR_REPLY);
          data_off = MSG_BUF_ALIGN (4 + sizeof_tdata e);
          dsz = data_size mbuf
      in
      if data_off + dsz > sz then Some (- ENOSPC, Some msg, proc, thread, s)
      else
        (let tdata = \<lparr>td_target = id_binder (m_obj_id msg), td_code = m_code msg,
                       td_flags = m_flags msg, td_sender_pid = sender_pid msg,
                       td_sender_euid = sender_euid msg, td_data_size = data_size mbuf,
                       td_offsets_size = offsets_size mbuf, td_buffer = buf + data_off,
                       td_offsets = buf + data_off + offsets_off mbuf\<rparr>
         in
         case read_flat_objs e proc mbuf s of
           None \<Rightarrow> None
         | Some (r, proc1, mbuf1, s1) \<Rightarrow>
             if r < 0 then Some (r, Some (msg\<lparr>m_buf := mbuf1\<rparr>), proc1, thread, s1)
             else
               (case put_user (UCMD cmd) buf s1 of
                  None \<Rightarrow> Some (- EFAULT, Some (msg\<lparr>m_buf := mbuf1\<rparr>), proc1, thread, s1)
                | Some s2 \<Rightarrow>
                    (case put_user (UTDATA tdata) (buf + 4) s2 of
                       None \<Rightarrow> Some (- EFAULT, Some (msg\<lparr>m_buf := mbuf1\<rparr>), proc1, thread, s2)
                     | Some s3 \<Rightarrow>
                         (case copy_to_user_data (buf + data_off) (data mbuf1) (data_size mbuf1) s3 of
                            None \<Rightarrow>
                              Some (- EFAULT, Some (msg\<lparr>m_buf := mbuf1\<rparr>), proc1, thread, s3)
                          | Some s4 \<Rightarrow>
                              Some (int (data_off + dsz), None, proc1,
                                    (if m_type msg = BC_TRANSACTION then
                                       (if m_flags msg AND TF_ONE_WAY e = 0
                                        then thread\<lparr>incoming_transactions :=
                                               msg\<lparr>m_buf := mbuf1\<rparr> # incoming_transactions thread\<rparr>
                                        else thread)
                                     else
                                       (if pending_replies thread > 0
                                        then thread\<lparr>pending_replies := pending_replies thread - 1\<rparr>
                                        else thread)),
                                    s4))))))"

definition BINDER_EVT_OBJ_DEAD :: nat where
  "BINDER_EVT_OBJ_DEAD = 1"

definition bcmd_read_notifier ::
  "binder_proc \<Rightarrow> binder_thread \<Rightarrow> bcmd_msg \<Rightarrow> nat \<Rightarrow> nat \<Rightarrow> kernel
     \<Rightarrow> int \<times> bcmd_msg option \<times> binder_proc \<times> binder_thread \<times> kernel" where
  "bcmd_read_notifier proc thread msg buf sz s =
     (case u_binder_find_obj proc (p_queue proc) (id_binder (m_obj_id msg)) s of
        None \<Rightarrow> (- EFAULT, Some msg, proc, thread, s)
      | Some obj \<Rightarrow>
          if m_type msg = BC_REQUEST_DEATH_NOTIFICATION then
            (case kmalloc s of
               (None, s1) \<Rightarrow> (- ENOMEM, Some msg, proc, thread, s1)
             | (Some x, s1) \<Rightarrow>
                 (0, None, proc, thread,
                  s1\<lparr>objs := (objs s1)(obj := (objs s1 obj)
                        \<lparr>notifiers := notifiers (objs s1 obj) @
                           [\<lparr>event = BINDER_EVT_OBJ_DEAD, nt_cookie = m_cookie msg,
                             notify_queue = reply_queue msg\<rparr>]\<rparr>)\<rparr>))
          else if sz < 4 then (- ENOSPC, Some msg, proc, thread, s)
          else
            (case find (\<lambda>n. event n = BINDER_EVT_OBJ_DEAD \<and> nt_cookie n = m_cookie msg
                              \<and> notify_queue n = reply_queue msg) (notifiers (objs s obj)) of
               None \<Rightarrow> (0, None, proc, thread, s)
             | Some n \<Rightarrow>
                 (let s1 = s\<lparr>objs := (objs s)(obj := (objs s obj)
                                 \<lparr>notifiers := remove1 n (notifiers (objs s obj))\<rparr>)\<rparr>
                  in case put_user (UCMD BR_CLEAR_DEATH_NOTIFICATION_DONE) buf s1 of
                       None \<Rightarrow> (- EFAULT, Some msg, proc, thread, s1)
                     | Some s2 \<Rightarrow> (4, None, proc, thread, s2))))"

definition bcmd_read_dead_binder ::
  "binder_proc \<Rightarrow> binder_thread \<Rightarrow> bcmd_msg \<Rightarrow> nat \<Rightarrow> nat \<Rightarrow> kernel
     \<Rightarrow> int \<times> bcmd_msg option \<times> binder_proc \<times> binder_thread \<times> kernel" where
  "bcmd_read_dead_binder proc thread msg buf sz s =
     (if sz < 4 then (- ENOSPC, Some msg, proc, thread, s)
      else
        (case put_user (UCMD BR_DEAD_BINDER) buf s of
           None \<Rightarrow> (- EFAULT, Some msg, proc, thread, s)
         | Some s1 \<Rightarrow> (4, None, proc, thread, s1)))"

text \<open>
  \<^verbatim>\<open>n\<close> is a \<^verbatim>\<open>size_t\<close>, so the test \<^verbatim>\<open>n < 0\<close> of the source never holds and has
  no branch here. The gate adds and compares \<^verbatim>\<open>int\<close>s: the sum wraps around and the
  comparison is signed, and so does the increment of \<^verbatim>\<open>pending_loopers\<close>.
\<close>

definition bcmd_spawn_on_busy ::
  "binder_proc \<Rightarrow> nat \<Rightarrow> nat \<Rightarrow> kernel \<Rightarrow> int \<times> binder_proc \<times> kernel" where
  "bcmd_spawn_on_busy proc buf sz s =
     (if sz < 4 then (0, proc, s)
      else
        (let n = bcmd_msg_queue_size (p_queue proc) s in
         if n > 1 then
           (if sint (num_loopers proc + pending_loopers proc) < sint (max_threads proc) then
              (case put_user (UCMD BR_SPAWN_LOOPER) buf s of
                 None \<Rightarrow> (- EFAULT, proc, s)
               | Some s1 \<Rightarrow> (4, proc\<lparr>pending_loopers := pending_loopers proc + 1\<rparr>, s1))
            else (4, proc, s))
         else (0, proc, s)))"

text \<open>Lines 1046 to 1052: the queue that this round reads, and the read.\<close>

definition read_next ::
  "binder_proc \<Rightarrow> binder_thread \<Rightarrow> kernel
     \<Rightarrow> ptr \<times> (stop + (int \<times> bcmd_msg option \<times> kernel))" where
  "read_next proc thread s =
     (if \<not> msg_queue_empty (t_queue thread) s \<or> pending_replies thread \<noteq> 0
      then (t_queue thread, u_bcmd_read_msg (t_queue thread) s)
      else (p_queue proc, bcmd_read_msg (p_queue proc) s))"

datatype read_step =
    Next nat nat binder_proc binder_thread kernel
  | Stop "stop + (int \<times> binder_proc \<times> binder_thread \<times> kernel)"

text \<open>Lines 1076 to 1093: what the loop does with the result of a handler.\<close>

definition read_after ::
  "nat \<Rightarrow> ptr \<Rightarrow> nat \<Rightarrow> nat
     \<Rightarrow> int \<times> bcmd_msg option \<times> binder_proc \<times> binder_thread \<times> kernel \<Rightarrow> read_step" where
  "read_after buf q p sz res =
     (case res of
        (n, msg, proc, thread, s) \<Rightarrow>
          if n > 0 then Next (p + nat n) (sz - nat n) proc thread s
          else if n < 0 then
            (if n = - ENOSPC then
               (case msg of
                  Some m \<Rightarrow>
                    Stop (Inr (int (p - buf), proc, thread,
                               snd (if q = t_queue thread then u_bcmd_write_msg_head q m s
                                    else bcmd_write_msg_head q m s)))
                | None \<Rightarrow> Stop (Inr (int (p - buf), proc, thread, s)))
             else Stop (Inr (n, proc, thread, s)))
          else Next p sz proc thread s)"

text \<open>One round of the loop of \<^verbatim>\<open>binder_thread_read\<close>.\<close>

definition read_iter ::
  "env \<Rightarrow> nat \<Rightarrow> binder_proc \<Rightarrow> binder_thread \<Rightarrow> nat \<Rightarrow> nat \<Rightarrow> kernel \<Rightarrow> read_step option" where
  "read_iter e buf proc thread p sz s =
     (case read_next proc thread s of
        (q, Inl st) \<Rightarrow> Some (Stop (Inl st))
      | (q, Inr (n, None, s1)) \<Rightarrow>
          if n < 0 then Some (Stop (Inr (n, proc, thread, s1))) else Some (Stop (Inl Oops))
      | (q, Inr (n, Some msg, s1)) \<Rightarrow>
          if n < 0 then Some (Stop (Inr (n, proc, thread, s1)))
          else if m_type msg = BC_TRANSACTION \<or> m_type msg = BC_REPLY then
            (case bcmd_read_transaction e proc thread msg p sz s1 of
               None \<Rightarrow> None
             | Some res \<Rightarrow> Some (read_after buf q p sz res))
          else if m_type msg = BC_REQUEST_DEATH_NOTIFICATION
                  \<or> m_type msg = BC_CLEAR_DEATH_NOTIFICATION then
            Some (read_after buf q p sz (bcmd_read_notifier proc thread msg p sz s1))
          else if m_type msg = BR_DEAD_BINDER then
            Some (read_after buf q p sz (bcmd_read_dead_binder proc thread msg p sz s1))
          else Some (Stop (Inr (- EFAULT, proc, thread, s1))))"

partial_function (option) read_loop ::
  "env \<Rightarrow> nat \<Rightarrow> binder_proc \<Rightarrow> binder_thread \<Rightarrow> nat \<Rightarrow> nat \<Rightarrow> kernel
     \<Rightarrow> (stop + (int \<times> binder_proc \<times> binder_thread \<times> kernel)) option" where
  "read_loop e buf proc thread p sz s =
     (if sz \<ge> 4 then
        (case read_iter e buf proc thread p sz s of
           None \<Rightarrow> None
         | Some (Stop r) \<Rightarrow> Some r
         | Some (Next p1 sz1 proc1 thread1 s1) \<Rightarrow> read_loop e buf proc1 thread1 p1 sz1 s1)
      else Some (Inr (int (p - buf), proc, thread, s)))"

definition binder_thread_read ::
  "env \<Rightarrow> binder_proc \<Rightarrow> binder_thread \<Rightarrow> nat \<Rightarrow> nat \<Rightarrow> kernel
     \<Rightarrow> (stop + (int \<times> binder_proc \<times> binder_thread \<times> kernel)) option" where
  "binder_thread_read e proc thread buf sz s =
     (case bcmd_spawn_on_busy proc buf sz s of
        (n, proc1, s1) \<Rightarrow>
          if n > 0 then read_loop e buf proc1 thread (buf + nat n) (sz - nat n) s1
          else if n < 0 then Some (Inr (n, proc1, thread, s1))
          else read_loop e buf proc1 thread buf sz s1)"

subsection \<open>The context manager\<close>

definition cmd_set_context_mgr ::
  "env \<Rightarrow> binder_proc \<Rightarrow> kernel \<Rightarrow> int \<times> binder_proc \<times> kernel" where
  "cmd_set_context_mgr e proc s =
     (if context_mgr_obj s = None then (- EBUSY, proc, s)
      else if context_mgr_uid s \<noteq> - 1 \<and> context_mgr_uid s \<noteq> current_euid s
      then (- EPERM, proc, s)
      else
        (case binder_new_obj e proc 0
                (if context_mgr_uid s = - 1 then s\<lparr>context_mgr_uid := current_euid s\<rparr> else s) of
           (r, proc1, s1) \<Rightarrow>
             if r = None then (- ENOMEM, proc1, s1\<lparr>context_mgr_obj := r\<rparr>)
             else (0, proc1, s1\<lparr>context_mgr_obj := r\<rparr>)))"

subsection \<open>Teardown\<close>













subsection \<open>Notions used in the statements\<close>








subsection \<open>Example states\<close>

text \<open>
  A device on which nothing has happened yet, a process with the queue \<open>0xA0\<close> and a
  thread with the inbox \<open>0xA8\<close>; the states below differ from them as stated.
\<close>

text \<open>
  A rebalancing for the examples: a chain of three nodes is rotated to the left at its
  root, every other tree is left as it is.
\<close>

definition rotate_chain :: "ptr \<Rightarrow> ptr tree \<Rightarrow> ptr tree" where
  "rotate_chain x t =
     (case t of
        Node Leaf a (Node Leaf b (Node Leaf c Leaf)) \<Rightarrow> Node (Node Leaf a Leaf) b (Node Leaf c Leaf)
      | _ \<Rightarrow> t)"

definition ex_env :: env where
  "ex_env = \<lparr>sizeof_tdata = 64, sizeof_flat = 32, BINDER_LOOPER_STATE_ACTIVE = 3,
              TF_ONE_WAY = 1, rb_insert_color = rotate_chain\<rparr>"

definition ex_queue :: msg_queue where
  "ex_queue = \<lparr>q_entries = [], q_closed = False, q_non_block = True\<rparr>"

definition ex_obj :: binder_obj where
  "ex_obj = \<lparr>obj_id = \<lparr>id_owner = 0, id_binder = 0\<rparr>, real_cookie = 0, notifiers = []\<rparr>"

definition ex_buf :: bcmd_msg_buf where
  "ex_buf = \<lparr>data = (\<lambda>off. \<lparr>fb_type = BINDER_TYPE_OTHER 0, fb_flags = 0, fb_binder = 0,
                                fb_cookie = 0\<rparr>),
              data_size = 0, offsets = (\<lambda>i. 0), offsets_size = 0, offsets_off = 0,
              buf_size = 0\<rparr>"

definition ex_msg :: bcmd_msg where
  "ex_msg = \<lparr>m_obj_id = \<lparr>id_owner = 0, id_binder = 0\<rparr>, m_type = BC_OTHER 0, m_code = 0,
              m_flags = 0, m_buf = ex_buf, sender_pid = 0, sender_euid = 0, m_cookie = 0,
              reply_queue = 0\<rparr>"

definition ex_kernel :: kernel where
  "ex_kernel = \<lparr>queues = (\<lambda>q. ex_queue), objs = (\<lambda>a. ex_obj), kmem_msg = (\<lambda>a. ex_msg),
                 km = [], stack_p = 1, umem = (\<lambda>a. UFREE), context_mgr_obj = None,
                 context_mgr_uid = - 1, current_euid = 1000\<rparr>"

definition ex_proc :: binder_proc where
  "ex_proc = \<lparr>thread_tree = Leaf, obj_tree = Leaf, p_queue = 0xA0, p_pid = 1,
               p_non_block = True, max_threads = 0, num_loopers = 0, pending_loopers = 0\<rparr>"

definition ex_thread :: binder_thread where
  "ex_thread = \<lparr>t_pid = 1, t_queue = 0xA8, t_state = 0, t_non_block = True,
                 pending_replies = 0, incoming_transactions = [], last_error = None\<rparr>"



definition own_proc :: binder_proc where
  "own_proc = ex_proc\<lparr>obj_tree := Node Leaf 0x100 Leaf\<rparr>"

definition own_kernel :: kernel where
  "own_kernel = ex_kernel
     \<lparr>objs := (\<lambda>a. ex_obj)(0x100 :=
          \<lparr>obj_id = \<lparr>id_owner = 0xA0, id_binder = 0xA1\<rparr>, real_cookie = 0xC1, notifiers = []\<rparr>),
      km := [Some 0x300, Some 0x308],
      umem := (\<lambda>a. UFREE)(0x1000 := UDATA (data ex_buf) 4)\<rparr>"

definition ex_tdata :: binder_transaction_data where
  "ex_tdata = \<lparr>td_target = 0xA1, td_code = 1, td_flags = 0, td_sender_pid = 0,
                td_sender_euid = 0, td_data_size = 4, td_offsets_size = 0,
                td_buffer = 0x1000, td_offsets = 0x2000\<rparr>"

text \<open>
  The inbox holds a reply of 100 bytes; user memory holds two \<open>BC_EXIT_LOOPER\<close> words
  at \<open>0x10\<close> and \<open>0x14\<close>.
\<close>

definition big_reply :: bcmd_msg where
  "big_reply = ex_msg\<lparr>m_type := BC_REPLY, m_buf := ex_buf\<lparr>data_size := 100\<rparr>\<rparr>"

definition latch_kernel :: kernel where
  "latch_kernel = ex_kernel
     \<lparr>queues := (\<lambda>q. ex_queue)(0xA8 := ex_queue\<lparr>q_entries := [big_reply]\<rparr>),
      umem := (\<lambda>a. UFREE)(0x10 := UCMD BC_EXIT_LOOPER, 0x14 := UCMD BC_EXIT_LOOPER)\<rparr>"


text \<open>Two messages wait in the queue of the process.\<close>

definition busy_kernel :: kernel where
  "busy_kernel = ex_kernel\<lparr>queues := (\<lambda>q. ex_queue)(0xA0 := ex_queue\<lparr>q_entries := [ex_msg, ex_msg]\<rparr>)\<rparr>"






lemmas ex_defs = ex_env_def ex_kernel_def ex_proc_def ex_thread_def ex_queue_def ex_msg_def
  ex_buf_def ex_obj_def

lemmas errno_defs = EPERM_def EAGAIN_def ENOMEM_def EFAULT_def EBUSY_def EINVAL_def
  ENOSPC_def EPIPE_def

lemmas write_defs = bcmd_write_transaction_def transaction_msg_def transaction_send_def
  bcmd_write_msg_buf_def binder_find_obj_def u_binder_find_obj_def obj_id_cmp_def
  binder_alloc_msg_def kmalloc_def copy_from_user_data_def copy_from_user_offsets_def
  failed_def bcmd_write_msg_def u_bcmd_write_msg_def write_msg_queue_def get_msg_queue_def
  set_entries_def MSG_BUF_SIZE_def MSG_BUF_ALIGN_def ALIGN_def

lemmas read_defs = binder_thread_read_def bcmd_spawn_on_busy_def bcmd_msg_queue_size_def
  msg_queue_size_def read_iter_def read_next_def msg_queue_empty_def u_bcmd_read_msg_def
  bcmd_read_msg_def read_msg_queue_def read_after_def bcmd_read_transaction_def
  bcmd_read_dead_binder_def put_user_def u_bcmd_write_msg_head_def bcmd_write_msg_head_def
  write_msg_queue_head_def


section \<open>Properties\<close>

subsection \<open>Lookup and insertion\<close>

text \<open>
  \<^verbatim>\<open>obj_id_cmp\<close> stores the difference of two pointers in a \<^verbatim>\<open>size_t\<close> and asks
  whether it is positive, so it answers \<open>1\<close> for every pair of different ids and never
  \<open>- 1\<close>: a descent only turns right.
\<close>

lemma obj_id_cmp_eq: "obj_id_cmp a b = (if a = b then 0 else 1)"
  by (auto simp: obj_id_cmp_def Let_def word_greater_zero_iff intro: obj_id_t.equality)


text \<open>An entry that sits to the left of a node with another id is not found.\<close>

lemma find_walk_misses_left:
  "obj_id (m y) \<noteq> k \<Longrightarrow> find_walk m k (Node (Node Leaf x Leaf) y Leaf) = None"
  by (simp add: obj_id_cmp_eq)









subsection \<open>C1: the owner round trip\<close>



subsection \<open>C2: death notices at teardown\<close>





















subsection \<open>C3: the context manager\<close>

text \<open>
  C3 fails on the code. On a device where no context manager has been set,
  \<^verbatim>\<open>cmd_set_context_mgr\<close> returns \<open>- EBUSY\<close> and changes nothing: the first
  call by the user 1000 does not succeed and records no euid, and the call by the user
  1001 that follows gets \<open>- EBUSY\<close> too, not \<open>- EPERM\<close>.
\<close>

theorem set_context_mgr_first_call_busy:
  "cmd_set_context_mgr ex_env ex_proc ex_kernel = (- EBUSY, ex_proc, ex_kernel)
   \<and> cmd_set_context_mgr ex_env ex_proc (ex_kernel\<lparr>current_euid := 1001\<rparr>)
       = (- EBUSY, ex_proc, ex_kernel\<lparr>current_euid := 1001\<rparr>)"
  by (simp add: cmd_set_context_mgr_def ex_kernel_def EBUSY_def)

subsection \<open>C4: the payload of a transaction\<close>

text \<open>
  C4 fails on the code. The process sends 4 bytes with no offsets to its object
  \<open>0xA1\<close>. When the payload is copied and translated without an error, the
  transaction fails: the result is \<open>- 1\<close>, the latched error is \<open>BR_FAILED_REPLY\<close>
  and no queue has changed. When the payload cannot be read (the buffer \<open>0x5000\<close> is
  not a payload), the message is put on the queue of the owner and the call returns 0
  with no error latched.
\<close>

theorem payload_check_inverted:
  "bcmd_write_transaction ex_env own_proc ex_thread ex_tdata BC_TRANSACTION own_kernel
     = Some (Inr (- 1, own_proc, ex_thread\<lparr>last_error := Some BR_FAILED_REPLY\<rparr>,
                  own_kernel\<lparr>km := [Some 0x308]\<rparr>))
   \<and> (\<exists>thread1 s1.
         bcmd_write_transaction ex_env own_proc ex_thread (ex_tdata\<lparr>td_buffer := 0x5000\<rparr>)
           BC_TRANSACTION own_kernel = Some (Inr (0, own_proc, thread1, s1))
         \<and> last_error thread1 = None
         \<and> map m_type (q_entries (queues s1 0xA0)) = [BC_TRANSACTION])"
  by (simp add: write_defs own_proc_def own_kernel_def ex_tdata_def ex_defs errno_defs
        write_flat_objs.simps)

subsection \<open>C5: the acknowledgement\<close>

text \<open>
  C5 fails on the code. A transaction without payload to the object \<open>0xA1\<close> is
  enqueued, and a \<open>BR_TRANSACTION_COMPLETE\<close> message without payload is put on the
  inbox of the thread. The next \<^verbatim>\<open>binder_thread_read\<close> of the thread, with room for
  64 bytes, takes this message from the inbox and returns \<open>- EFAULT\<close>: it
  writes nothing to the read buffer and the message is gone.
\<close>

theorem transaction_complete_not_read:
  "\<exists>thread1 s1 ack.
     bcmd_write_transaction ex_env own_proc ex_thread (ex_tdata\<lparr>td_data_size := 0\<rparr>)
       BC_TRANSACTION own_kernel = Some (Inr (0, own_proc, thread1, s1))
     \<and> map m_type (q_entries (queues s1 (p_queue own_proc))) = [BC_TRANSACTION]
     \<and> q_entries (queues s1 (t_queue thread1)) = [ack]
     \<and> m_type ack = BR_TRANSACTION_COMPLETE \<and> data_size (m_buf ack) = 0
     \<and> (\<exists>s2. binder_thread_read ex_env own_proc thread1 0 64 s1
                 = Some (Inr (- EFAULT, own_proc, thread1, s2))
              \<and> umem s2 = umem s1 \<and> q_entries (queues s2 (t_queue thread1)) = [])"
  by (simp add: write_defs read_defs own_proc_def own_kernel_def ex_tdata_def ex_defs
        errno_defs read_loop.simps Let_def)

subsection \<open>C6: the latched error\<close>

text \<open>
  C6 fails on the code. \<open>BC_EXIT_LOOPER\<close> from a thread that has not entered fails and
  latches \<open>BR_FAILED_REPLY\<close>. The read that follows, with room for 16 bytes, returns 0
  bytes: it leaves the read buffer as it was and the error latched.
\<close>

theorem latched_error_not_delivered:
  "binder_thread_write ex_env ex_proc ex_thread 0x10 8 latch_kernel
     = Some (Inr (4, ex_proc, ex_thread\<lparr>last_error := Some BR_FAILED_REPLY\<rparr>, latch_kernel))
   \<and> binder_thread_read ex_env ex_proc (ex_thread\<lparr>last_error := Some BR_FAILED_REPLY\<rparr>)
        0x100 16 latch_kernel
     = Some (Inr (0, ex_proc, ex_thread\<lparr>last_error := Some BR_FAILED_REPLY\<rparr>, latch_kernel))"
  by (simp add: binder_thread_write_def write_loop.simps get_user_cmd_def bcmd_write_looper_def
        BINDER_LOOPER_STATE_ENTERED_def latch_kernel_def big_reply_def
        read_defs ex_defs errno_defs read_loop.simps Let_def MSG_BUF_ALIGN_def ALIGN_def
        get_msg_queue_def set_entries_def)

subsection \<open>C7: the queue a round reads\<close>










subsection \<open>C8: a transaction that does not fit\<close>





subsection \<open>C9: the spawn gate\<close>

text \<open>
  C9, as stated, fails: with \<open>max_threads = 4\<close>, no looper and two messages in the
  queue, a read writes \<open>BR_SPAWN_LOOPER\<close> and counts one pending looper, and the next
  read, with no \<open>BC_REGISTER_LOOPER\<close> in between, writes \<open>BR_SPAWN_LOOPER\<close> again.
\<close>

theorem spawn_repeats_counterexample:
  "binder_thread_read ex_env (ex_proc\<lparr>max_threads := 4\<rparr>) ex_thread 0 4 busy_kernel
     = Some (Inr (4, ex_proc\<lparr>max_threads := 4, pending_loopers := 1\<rparr>, ex_thread,
                  busy_kernel\<lparr>umem := (\<lambda>a. UFREE)(0 := UCMD BR_SPAWN_LOOPER)\<rparr>))
   \<and> binder_thread_read ex_env (ex_proc\<lparr>max_threads := 4, pending_loopers := 1\<rparr>) ex_thread 8 4
        (busy_kernel\<lparr>umem := (\<lambda>a. UFREE)(0 := UCMD BR_SPAWN_LOOPER)\<rparr>)
     = Some (Inr (4, ex_proc\<lparr>max_threads := 4, pending_loopers := 2\<rparr>, ex_thread,
                  busy_kernel\<lparr>umem := (\<lambda>a. UFREE)(0 := UCMD BR_SPAWN_LOOPER,
                                                     8 := UCMD BR_SPAWN_LOOPER)\<rparr>))"
  by (simp add: binder_thread_read_def bcmd_spawn_on_busy_def bcmd_msg_queue_size_def get_msg_queue_def
        msg_queue_size_def put_user_def busy_kernel_def ex_kernel_def ex_proc_def ex_queue_def EPIPE_def Let_def
        read_loop.simps)

text \<open>
  C9, amended. The counters are \<^verbatim>\<open>int\<close>s, and the gate is the comparison the code
  makes: the 32-bit sum \<open>num_loopers + pending_loopers\<close>, read as a signed number, is
  less than \<open>max_threads\<close>. On a read with room for a command word, with the queue of
  the process open and the buffer writable: when the queue holds more than one message
  and the gate holds, the check writes \<open>BR_SPAWN_LOOPER\<close>, adds one to
  \<open>pending_loopers\<close> and reports the 4 bytes it wrote; otherwise it writes nothing and
  changes no counter. The gate is the same for every read, whatever was spawned before.
  \<open>BC_REGISTER_LOOPER\<close> from a thread that is not active takes one from
  \<open>pending_loopers\<close>. Where the integer sum of the two counters fits an \<^verbatim>\<open>int\<close>, the
  gate is the comparison of integers, and away from the two ends of the range the
  increment and the decrement are those of the integers.
\<close>

theorem spawn_gate:
  assumes "4 \<le> sz" "\<not> q_closed (queues s (p_queue proc))" "umem s buf \<noteq> UNMAPPED"
  shows "(1 < length (q_entries (queues s (p_queue proc)))
            \<and> sint (num_loopers proc + pending_loopers proc) < sint (max_threads proc) \<longrightarrow>
          bcmd_spawn_on_busy proc buf sz s
            = (4, proc\<lparr>pending_loopers := pending_loopers proc + 1\<rparr>,
               s\<lparr>umem := (umem s)(buf := UCMD BR_SPAWN_LOOPER)\<rparr>))
       \<and> (\<not> (1 < length (q_entries (queues s (p_queue proc)))
               \<and> sint (num_loopers proc + pending_loopers proc) < sint (max_threads proc)) \<longrightarrow>
          snd (bcmd_spawn_on_busy proc buf sz s) = (proc, s))
       \<and> (t_state thread AND BINDER_LOOPER_STATE_ACTIVE e = 0 \<longrightarrow>
          bcmd_write_looper e proc thread BC_REGISTER_LOOPER
            = (0, proc\<lparr>pending_loopers := pending_loopers proc - 1\<rparr>, thread))
       \<and> (- (2 ^ 31) \<le> sint (num_loopers proc) + sint (pending_loopers proc)
            \<and> sint (num_loopers proc) + sint (pending_loopers proc) < 2 ^ 31 \<longrightarrow>
          (sint (num_loopers proc + pending_loopers proc) < sint (max_threads proc))
            = (sint (num_loopers proc) + sint (pending_loopers proc) < sint (max_threads proc)))
       \<and> (sint (pending_loopers proc) < 2 ^ 31 - 1 \<longrightarrow>
          sint (pending_loopers (proc\<lparr>pending_loopers := pending_loopers proc + 1\<rparr>))
            = sint (pending_loopers proc) + 1)
       \<and> (- (2 ^ 31) < sint (pending_loopers proc) \<longrightarrow>
          sint (pending_loopers (proc\<lparr>pending_loopers := pending_loopers proc - 1\<rparr>))
            = sint (pending_loopers proc) - 1)"
proof (intro conjI impI)
  assume "1 < length (q_entries (queues s (p_queue proc)))
            \<and> sint (num_loopers proc + pending_loopers proc) < sint (max_threads proc)"
  then show "bcmd_spawn_on_busy proc buf sz s
            = (4, proc\<lparr>pending_loopers := pending_loopers proc + 1\<rparr>,
               s\<lparr>umem := (umem s)(buf := UCMD BR_SPAWN_LOOPER)\<rparr>)"
    using assms
    by (simp add: bcmd_spawn_on_busy_def bcmd_msg_queue_size_def get_msg_queue_def
          msg_queue_size_def put_user_def EPIPE_def Let_def)
next
  assume "\<not> (1 < length (q_entries (queues s (p_queue proc)))
               \<and> sint (num_loopers proc + pending_loopers proc) < sint (max_threads proc))"
  then show "snd (bcmd_spawn_on_busy proc buf sz s) = (proc, s)"
    using assms
    by (auto simp: bcmd_spawn_on_busy_def bcmd_msg_queue_size_def get_msg_queue_def
          msg_queue_size_def put_user_def EPIPE_def Let_def)
next
  assume "t_state thread AND BINDER_LOOPER_STATE_ACTIVE e = 0"
  then show "bcmd_write_looper e proc thread BC_REGISTER_LOOPER
            = (0, proc\<lparr>pending_loopers := pending_loopers proc - 1\<rparr>, thread)"
    by (simp add: bcmd_write_looper_def)
next
  assume "- (2 ^ 31) \<le> sint (num_loopers proc) + sint (pending_loopers proc)
            \<and> sint (num_loopers proc) + sint (pending_loopers proc) < 2 ^ 31"
  then have "sint (num_loopers proc + pending_loopers proc)
             = sint (num_loopers proc) + sint (pending_loopers proc)"
    by (simp add: sint_word_ariths signed_take_bit_int_eq_self)
  then show "(sint (num_loopers proc + pending_loopers proc) < sint (max_threads proc))
            = (sint (num_loopers proc) + sint (pending_loopers proc) < sint (max_threads proc))"
    by simp
next
  assume a: "sint (pending_loopers proc) < 2 ^ 31 - 1"
  have "- (2 ^ 31) \<le> sint (pending_loopers proc)"
    using sint_ge [of "pending_loopers proc"] by simp
  with a show "sint (pending_loopers (proc\<lparr>pending_loopers := pending_loopers proc + 1\<rparr>))
            = sint (pending_loopers proc) + 1"
    by (simp add: sint_word_ariths signed_take_bit_int_eq_self)
next
  assume a: "- (2 ^ 31) < sint (pending_loopers proc)"
  have "sint (pending_loopers proc) < 2 ^ 31"
    using sint_lt [of "pending_loopers proc"] by simp
  with a show "sint (pending_loopers (proc\<lparr>pending_loopers := pending_loopers proc - 1\<rparr>))
            = sint (pending_loopers proc) - 1"
    by (simp add: sint_word_ariths signed_take_bit_int_eq_self)
qed

text \<open>
  The gate open, the gate shut by \<open>max_threads = 0\<close>, a registration, and the gate at
  the end of the range: with \<open>num_loopers = 1\<close> and \<open>pending_loopers\<close> and
  \<open>max_threads\<close> both \<open>2 ^ 31 - 1\<close> the sum wraps around to \<open>- 2 ^ 31\<close> and the
  check spawns.
\<close>

theorem spawn_gate_witness:
  "bcmd_spawn_on_busy (ex_proc\<lparr>max_threads := 4\<rparr>) 0 4 busy_kernel
     = (4, ex_proc\<lparr>max_threads := 4, pending_loopers := 1\<rparr>,
        busy_kernel\<lparr>umem := (umem busy_kernel)(0 := UCMD BR_SPAWN_LOOPER)\<rparr>)
   \<and> snd (bcmd_spawn_on_busy ex_proc 0 4 busy_kernel) = (ex_proc, busy_kernel)
   \<and> bcmd_write_looper ex_env (ex_proc\<lparr>max_threads := 4, pending_loopers := 1\<rparr>) ex_thread
        BC_REGISTER_LOOPER
     = (0, ex_proc\<lparr>max_threads := 4, pending_loopers := 0\<rparr>, ex_thread)
   \<and> bcmd_spawn_on_busy
        (ex_proc\<lparr>max_threads := 0x7FFFFFFF, num_loopers := 1, pending_loopers := 0x7FFFFFFF\<rparr>)
        0 4 busy_kernel
     = (4, ex_proc\<lparr>max_threads := 0x7FFFFFFF, num_loopers := 1, pending_loopers := 0x80000000\<rparr>,
        busy_kernel\<lparr>umem := (umem busy_kernel)(0 := UCMD BR_SPAWN_LOOPER)\<rparr>)"
  using spawn_gate [of 4 busy_kernel "ex_proc\<lparr>max_threads := 4\<rparr>" 0 ex_thread ex_env]
    spawn_gate [of 4 busy_kernel ex_proc 0 ex_thread ex_env]
    spawn_gate [of 4 busy_kernel "ex_proc\<lparr>max_threads := 4, pending_loopers := 1\<rparr>" 0
      ex_thread ex_env]
    spawn_gate [of 4 busy_kernel
      "ex_proc\<lparr>max_threads := 0x7FFFFFFF, num_loopers := 1, pending_loopers := 0x7FFFFFFF\<rparr>" 0
      ex_thread ex_env]
  by (simp add: busy_kernel_def ex_defs)

subsection \<open>C10: the last word of a write buffer\<close>

text \<open>
  C10. The write loop reads a command word at \<open>p\<close> only if \<open>p + 4 < ep\<close>. Where the
  buffer ends with the word at \<open>p\<close> or before, the loop ends at once: it returns the
  \<open>p - buf\<close> bytes before the word and changes nothing. A buffer of 4 bytes is
  consumed to 0 bytes, whatever command it holds.
\<close>

theorem write_stops_before_last_word:
  assumes "ep \<le> p + 4"
  shows "write_loop e buf ep p err proc thread s = Some (Inr (int (p - buf), proc, thread, s))
         \<and> binder_thread_write e proc thread buf 4 s = Some (Inr (0, proc, thread, s))"
proof
  show "write_loop e buf ep p err proc thread s = Some (Inr (int (p - buf), proc, thread, s))"
    using assms by (subst write_loop.simps) simp
  show "binder_thread_write e proc thread buf 4 s = Some (Inr (0, proc, thread, s))"
    unfolding binder_thread_write_def by (subst write_loop.simps) simp
qed

text \<open>The second of two words, and a buffer of one word.\<close>

theorem write_stops_before_last_word_witness:
  "write_loop ex_env 0x10 0x18 0x14 0 ex_proc ex_thread latch_kernel
     = Some (Inr (4, ex_proc, ex_thread, latch_kernel))
   \<and> binder_thread_write ex_env ex_proc ex_thread 0x10 4 latch_kernel
     = Some (Inr (0, ex_proc, ex_thread, latch_kernel))"
  using write_stops_before_last_word [of "0x18" "0x14" ex_env "0x10" 0 ex_proc ex_thread latch_kernel]
  by simp

end
